theory Spec2Isabelle
  imports Main "HOL-Library.AList" "HOL-Library.Word"
begin

unbundle bit_operations_syntax

section \<open>The event server of \<^verbatim>\<open>bdilab_model_monitor_server/server.py\<close>\<close>

text \<open>
  The module wires one registered model behind a tornado handler. Everything the handler
  calls that lives outside \<^verbatim>\<open>server.py\<close> (the JSON codec, the request handler of the
  wire protocol, the CloudEvents marshaller, numpy, the model, the metrics registry, the
  clock, the UUID generator and the outbound HTTP client) is a field of an environment
  record, so every statement below holds for any behaviour of these collaborators.
  Python values whose inside the handler never inspects are type parameters:
  \<open>'j\<close> JSON values, \<open>'a\<close> numpy arrays, \<open>'m\<close> metrics batches, \<open>'r\<close> the state of the
  metrics registry.
\<close>

subsection \<open>Exceptions\<close>

text \<open>
  \<open>pyexc\<close>: an exception raised inside a collaborator. The handler tells
  \<^verbatim>\<open>json.decoder.JSONDecodeError\<close> from the rest (line 183); tornado answers a
  \<^verbatim>\<open>tornado.web.HTTPError\<close> with its own status code, wherever it was raised.
\<close>

datatype pyexc =
    JSONDecodeError string
  | TornadoHTTPError nat string
  | OtherException string

text \<open>
  Modelled from the spec: the enumeration \<^verbatim>\<open>Protocol\<close> is declared in
  \<^verbatim>\<open>bdilab_model_monitor_server/protocols\<close>, which is not under src/. The spec names one
  variant, \<^verbatim>\<open>common_http\<close>, the only one \<^verbatim>\<open>server.py\<close> mentions. Python does not enforce the
  annotation of the constructor's argument, so any other value is \<open>other_protocol\<close>.
\<close>

datatype Protocol = common_http | other_protocol string

text \<open>
  \<open>error\<close>: how a call of this module ends when it does not return. One constructor per
  \<^verbatim>\<open>raise\<close> of \<^verbatim>\<open>server.py\<close> (lines 107, 131, 184, 216), one for
  \<^verbatim>\<open>response.raise_for_status()\<close> (line 157), one for a failed \<^verbatim>\<open>requests.post\<close>
  (line 156), one for an attribute read on \<^verbatim>\<open>None\<close> (lines 219, 221), and \<open>Raised\<close> for an
  exception of a collaborator that nothing catches.
\<close>

datatype 'a error =
    HTTPError nat string
  | UnknownProtocol Protocol
  | RegisterModelFailed
  | NumPyArrayFailed pyexc "(string \<times> 'a) list"
  | RequestException string
  | RequestsHTTPError nat
  | AttributeError string
  | Raised pyexc

text \<open>
  What tornado answers when \<^verbatim>\<open>post\<close> ends (\<^verbatim>\<open>RequestHandler._handle_request_exception\<close>):
  the status of a \<^verbatim>\<open>tornado.web.HTTPError\<close>, 500 for any other exception, 200 when the
  handler returns.
\<close>

fun http_status :: "'a error + unit \<Rightarrow> nat" where
  "http_status (Inr u) = 200"
| "http_status (Inl (HTTPError code reason)) = code"
| "http_status (Inl (Raised (TornadoHTTPError code reason))) = code"
| "http_status (Inl e) = 500"

subsection \<open>Data\<close>

text \<open>
  A CloudEvent (\<^verbatim>\<open>cloudevents.sdk.event.v1.Event\<close>): every attribute is optional until it
  is set; the extensions are a dictionary.
\<close>

record 'j Event =
  ce_specversion :: string
  ce_id :: "string option"
  ce_source :: "string option"
  ce_type :: "string option"
  ce_datacontenttype :: "string option"
  ce_time :: "string option"
  ce_extensions :: "(string \<times> 'j) list"
  ce_data :: "'j option"

definition v1_Event :: "'j Event" where
  "v1_Event = \<lparr>ce_specversion = ''1.0'', ce_id = None, ce_source = None, ce_type = None,
     ce_datacontenttype = None, ce_time = None, ce_extensions = [], ce_data = None\<rparr>"

definition EventID :: "'j Event \<Rightarrow> string option" where
  "EventID ev = ce_id ev"

definition Extensions :: "'j Event \<Rightarrow> (string \<times> 'j) list" where
  "Extensions ev = ce_extensions ev"

definition SetContentType :: "string \<Rightarrow> 'j Event \<Rightarrow> 'j Event" where
  "SetContentType c ev = ev\<lparr>ce_datacontenttype := Some c\<rparr>"

definition SetData :: "'j \<Rightarrow> 'j Event \<Rightarrow> 'j Event" where
  "SetData d ev = ev\<lparr>ce_data := Some d\<rparr>"

definition SetEventID :: "string \<Rightarrow> 'j Event \<Rightarrow> 'j Event" where
  "SetEventID i ev = ev\<lparr>ce_id := Some i\<rparr>"

definition SetSource :: "string \<Rightarrow> 'j Event \<Rightarrow> 'j Event" where
  "SetSource s ev = ev\<lparr>ce_source := Some s\<rparr>"

definition SetEventType :: "string \<Rightarrow> 'j Event \<Rightarrow> 'j Event" where
  "SetEventType t ev = ev\<lparr>ce_type := Some t\<rparr>"

definition SetEventTime :: "string \<Rightarrow> 'j Event \<Rightarrow> 'j Event" where
  "SetEventTime t ev = ev\<lparr>ce_time := Some t\<rparr>"

definition SetExtensions :: "(string \<times> 'j) list \<Rightarrow> 'j Event \<Rightarrow> 'j Event" where
  "SetExtensions x ev = ev\<lparr>ce_extensions := x\<rparr>"

text \<open>
  Modelled from the spec: \<^verbatim>\<open>ModelResponse\<close> and \<^verbatim>\<open>CEModel\<close> are declared in
  \<^verbatim>\<open>bdilab_model_monitor_server/base.py\<close>, which is not under src/. A response has an
  optional JSON-serializable \<open>data\<close> and an optional \<open>metrics\<close> batch; a model has a name
  (a string) and the method \<^verbatim>\<open>process_event(inputs, headers)\<close>, annotated in
  \<^verbatim>\<open>server.py\<close> as returning \<^verbatim>\<open>Optional[ModelResponse]\<close>.
\<close>

record ('j, 'm) ModelResponse =
  data :: "'j option"
  metrics :: "'m option"

record ('j, 'a, 'm) CEModel =
  name :: string
  process_event ::
    "(string \<times> 'a) list \<Rightarrow> (string \<times> string) list \<Rightarrow> pyexc + ('j, 'm) ModelResponse option"

text \<open>The request handler of the wire protocol, built from the parsed body (line 129).\<close>

datatype 'j RequestHandler = CommonRequestHandler 'j

text \<open>The part of a tornado request that \<^verbatim>\<open>post\<close> reads.\<close>

record HTTPRequest =
  body :: string
  headers :: "(string \<times> string) list"

text \<open>
  What a call does besides returning: log records, the call of the model, the call of the
  registry's \<^verbatim>\<open>update\<close>, the call of \<^verbatim>\<open>uuid.uuid1()\<close> with the 128 bits it returned, the
  outbound \<^verbatim>\<open>requests.post\<close>, the response body handed to tornado, and the start of the
  HTTP server.
\<close>

datatype ('a, 'm) effect =
    LogDebug string
  | LogInfo string
  | LogError string
  | ProcessEvent "(string \<times> 'a) list" "(string \<times> string) list"
  | MetricsUpdate 'm string
  | Uuid1 "128 word"
  | HttpPost "string option" "(string \<times> string) list" string
  | Write string
  | Serve int

fun is_ProcessEvent :: "('a, 'm) effect \<Rightarrow> bool" where
  "is_ProcessEvent (ProcessEvent i h) = True"
| "is_ProcessEvent e = False"

fun is_MetricsUpdate :: "('a, 'm) effect \<Rightarrow> bool" where
  "is_MetricsUpdate (MetricsUpdate m t) = True"
| "is_MetricsUpdate e = False"

fun is_HttpPost :: "('a, 'm) effect \<Rightarrow> bool" where
  "is_HttpPost (HttpPost u h d) = True"
| "is_HttpPost e = False"

fun is_Write :: "('a, 'm) effect \<Rightarrow> bool" where
  "is_Write (Write s) = True"
| "is_Write e = False"


fun is_Serve :: "('a, 'm) effect \<Rightarrow> bool" where
  "is_Serve (Serve port) = True"
| "is_Serve e = False"

subsection \<open>The collaborators\<close>

text \<open>
  \<open>json_loads\<close>, \<open>json_dumps\<close>: the standard codec (\<open>json_dumps\<close> is applied to JSON
  values only). \<open>validate\<close>, \<open>extract_request\<close>: the methods of the request handler
  (\<^verbatim>\<open>protocols/common_http.py\<close>, not under src/). \<open>FromRequest\<close>, \<open>ToRequest\<close>,
  \<open>Properties\<close>: the CloudEvents marshaller and the event's property dictionary.
  \<open>np_array\<close>: \<^verbatim>\<open>numpy.array\<close>. \<open>validate_metrics\<close>, \<open>update\<close>: the metrics
  module (\<^verbatim>\<open>prometheus_metrics/metrics.py\<close>, not under src/); \<open>str_metrics\<close>:
  \<^verbatim>\<open>str\<close> of a batch. \<open>uuid1\<close>: the 128 bits \<^verbatim>\<open>uuid.uuid1()\<close> returns when the handler
  calls it while it answers this request (it calls it at most once). \<open>utcnow_isoformat\<close>:
  \<^verbatim>\<open>datetime.now(timezone.utc).isoformat()\<close>. \<open>requests_post\<close>: \<^verbatim>\<open>requests.post\<close>,
  which returns the status code of the response or fails with a
  \<^verbatim>\<open>requests.RequestException\<close>.
\<close>

record ('j, 'a, 'm, 'r) env =
  json_loads :: "string \<Rightarrow> pyexc + 'j"
  json_dumps :: "'j \<Rightarrow> string"
  validate :: "'j RequestHandler \<Rightarrow> pyexc + unit"
  extract_request :: "'j RequestHandler \<Rightarrow> pyexc + ('j \<times> 'j \<times> string)"
  FromRequest :: "(string \<times> string) list \<Rightarrow> string \<Rightarrow> pyexc + 'j Event"
  ToRequest :: "'j Event \<Rightarrow> (string \<times> string) list \<times> string"
  Properties :: "'j Event \<Rightarrow> 'j"
  np_array :: "'j \<Rightarrow> pyexc + 'a"
  validate_metrics :: "'m \<Rightarrow> bool"
  update :: "'r \<Rightarrow> 'm \<Rightarrow> string \<Rightarrow> 'r"
  str_metrics :: "'m \<Rightarrow> string"
  uuid1 :: "128 word"
  utcnow_isoformat :: string
  requests_post :: "string option \<Rightarrow> (string \<times> string) list \<Rightarrow> string \<Rightarrow> string + nat"

text \<open>\<^verbatim>\<open>UUID.hex\<close>: the 128 bits as 32 lower-case hexadecimal digits.\<close>

definition hex_digit :: "nat \<Rightarrow> char" where
  "hex_digit n = ''0123456789abcdef'' ! (n mod 16)"

definition UUID_hex :: "128 word \<Rightarrow> string" where
  "UUID_hex u = map (\<lambda>i. hex_digit (unat (drop_bit (4 * (31 - i)) u AND 15))) [0..<32]"

text \<open>
  \<^verbatim>\<open>requests.Response.raise_for_status\<close>: raises \<^verbatim>\<open>requests.HTTPError\<close> for a status
  code from 400 to 599 (client error or server error) and returns otherwise.
\<close>

definition raise_for_status :: "nat \<Rightarrow> 'a error + unit" where
  "raise_for_status status_code =
     (if 400 \<le> status_code \<and> status_code < 600 then Inl (RequestsHTTPError status_code)
      else Inr ())"

subsection \<open>Calls that log, fail and return\<close>

text \<open>
  A run is the result of a call (an error or a value) with the effects it had up to
  there, in order. \<open>and_then\<close> sequences two statements: an exception of the first skips
  the second, and its effects stay.
\<close>

type_synonym ('x, 'a, 'm) run = "('a error + 'x) \<times> ('a, 'm) effect list"

definition ok :: "'x \<Rightarrow> ('x, 'a, 'm) run" where
  "ok x = (Inr x, [])"

definition raise :: "'a error \<Rightarrow> ('x, 'a, 'm) run" where
  "raise e = (Inl e, [])"

definition emit :: "('a, 'm) effect \<Rightarrow> (unit, 'a, 'm) run" where
  "emit w = (Inr (), [w])"

definition call :: "pyexc + 'x \<Rightarrow> ('x, 'a, 'm) run" where
  "call r = (case r of Inl ex \<Rightarrow> raise (Raised ex) | Inr x \<Rightarrow> ok x)"

definition and_then :: "('x, 'a, 'm) run \<Rightarrow> ('x \<Rightarrow> ('y, 'a, 'm) run) \<Rightarrow> ('y, 'a, 'm) run" where
  "and_then m f =
     (case m of
        (Inl e, w) \<Rightarrow> (Inl e, w)
      | (Inr x, w) \<Rightarrow> (case f x of (r, w') \<Rightarrow> (r, w @ w')))"

subsection \<open>\<^verbatim>\<open>CEServer\<close>\<close>

definition DEFAULT_HTTP_PORT :: int where
  "DEFAULT_HTTP_PORT = 8080"

text \<open>
  The fields the server and the event handler share; \<open>reply_url\<close> is \<open>None\<close> for Python's
  \<^verbatim>\<open>None\<close>, the default of the constructor's argument.
\<close>

record wiring =
  protocol :: Protocol
  reply_url :: "string option"
  event_type :: string
  event_source :: string

record ('j, 'a, 'm) CEServer = wiring +
  registered_model :: "('j, 'a, 'm) CEModel option"
  http_port :: int
  http_server_started :: bool

record ('j, 'a, 'm) EventHandler = wiring +
  model :: "('j, 'a, 'm) CEModel option"

text \<open>\<^verbatim>\<open>CEServer.__init__\<close> (lines 35-62): no check, no failure.\<close>

definition CEServer_init ::
  "Protocol \<Rightarrow> string \<Rightarrow> string \<Rightarrow> int \<Rightarrow> string option \<Rightarrow> 'a error + ('j, 'a, 'm) CEServer" where
  "CEServer_init p etype esource port url =
     Inr \<lparr>protocol = p, reply_url = url, event_type = etype, event_source = esource,
          registered_model = None, http_port = port, http_server_started = False\<rparr>"

text \<open>The constructor called with its two defaults (lines 40-41).\<close>

definition CEServer_init_default ::
  "Protocol \<Rightarrow> string \<Rightarrow> string \<Rightarrow> 'a error + ('j, 'a, 'm) CEServer" where
  "CEServer_init_default p etype esource = CEServer_init p etype esource DEFAULT_HTTP_PORT None"

text \<open>
  \<^verbatim>\<open>create_application\<close> (lines 64-89): the arguments of the route \<^verbatim>\<open>/\<close>, which
  \<^verbatim>\<open>EventHandler.initialize\<close> (lines 161-175) stores as they are.
\<close>

definition create_application :: "('j, 'a, 'm) CEServer \<Rightarrow> ('j, 'a, 'm) EventHandler" where
  "create_application srv =
     \<lparr>protocol = protocol srv, reply_url = reply_url srv, event_type = event_type srv,
      event_source = event_source srv, model = registered_model srv\<rparr>"

text \<open>
  \<^verbatim>\<open>register_model\<close> (lines 105-110). The server is mutated in place, so the call returns
  the server as it leaves it, also when it raises.
\<close>

definition register_model ::
  "('j, 'a, 'm) CEServer \<Rightarrow> ('j, 'a, 'm) CEModel \<Rightarrow> (unit, 'a, 'm) run \<times> ('j, 'a, 'm) CEServer" where
  "register_model srv mdl =
     (if name mdl = [] then (raise RegisterModelFailed, srv)
      else (emit (LogInfo (''Registering model:'' @ name mdl)),
            srv\<lparr>registered_model := Some mdl\<rparr>))"

text \<open>Decimal digits of an integer, for \<^verbatim>\<open>"%s" % self.http_port\<close>.\<close>

fun str_nat :: "nat \<Rightarrow> string" where
  "str_nat n =
     (if n < 10 then [''0123456789'' ! n] else str_nat (n div 10) @ [''0123456789'' ! (n mod 10)])"

definition str_int :: "int \<Rightarrow> string" where
  "str_int i = (if i < 0 then ''-'' @ str_nat (nat (- i)) else str_nat (nat i))"

text \<open>
  \<^verbatim>\<open>start\<close> (lines 91-103), up to the point where the IO loop takes over: the result is
  the handler configuration the application serves with. \<open>Serve\<close> stands for
  \<^verbatim>\<open>bind\<close>, \<^verbatim>\<open>start(1)\<close> and \<^verbatim>\<open>IOLoop.current().start()\<close>.
\<close>

definition start ::
  "('j, 'a, 'm) CEServer \<Rightarrow> ('j, 'a, 'm) CEModel \<Rightarrow>
   (('j, 'a, 'm) EventHandler, 'a, 'm) run \<times> ('j, 'a, 'm) CEServer" where
  "start srv mdl =
     (case register_model srv mdl of
        ((Inl e, w), srv') \<Rightarrow> ((Inl e, w), srv')
      | ((Inr u, w), srv') \<Rightarrow>
          ((Inr (create_application srv'),
            w @ [LogInfo (''Listening on port '' @ str_int (http_port srv')), Serve (http_port srv')]),
           srv'\<lparr>http_server_started := True\<rparr>))"

text \<open>
  The handler that answers requests once a server was constructed and started with a
  model; \<open>None\<close> when the constructor or \<^verbatim>\<open>start\<close> raised.
\<close>

definition deployed ::
  "'a error + ('j, 'a, 'm) CEServer \<Rightarrow> ('j, 'a, 'm) CEModel \<Rightarrow> ('j, 'a, 'm) EventHandler option" where
  "deployed constructed mdl =
     (case constructed of
        Inl e \<Rightarrow> None
      | Inr srv \<Rightarrow> (case fst (fst (start srv mdl)) of Inl e \<Rightarrow> None | Inr h \<Rightarrow> Some h))"

subsection \<open>\<^verbatim>\<open>get_request_handler\<close> and \<^verbatim>\<open>sendCloudEvent\<close>\<close>

text \<open>\<^verbatim>\<open>get_request_handler\<close> (lines 113-131).\<close>

definition get_request_handler :: "Protocol \<Rightarrow> 'j \<Rightarrow> 'a error + 'j RequestHandler" where
  "get_request_handler p request =
     (if p = common_http then Inr (CommonRequestHandler request)
      else Inl (UnknownProtocol p))"

text \<open>
  \<^verbatim>\<open>sendCloudEvent\<close> (lines 134-157): marshal in binary mode, log the headers and the
  data, post once, raise for the status.
\<close>

definition sendCloudEvent ::
  "('j, 'a, 'm, 'r) env \<Rightarrow> 'j Event \<Rightarrow> string option \<Rightarrow> (unit, 'a, 'm) run" where
  "sendCloudEvent env ev url =
     (case ToRequest env ev of
        (binary_headers, binary_data) \<Rightarrow>
          (let logs = [LogInfo ''binary CloudEvent'']
                 @ map (\<lambda>(k, v). LogInfo (k @ '': '' @ v @ [CHR 0x0D, CHR 0x0A])) binary_headers
                 @ [LogInfo binary_data, HttpPost url binary_headers binary_data]
           in case requests_post env url binary_headers binary_data of
                Inl msg \<Rightarrow> (Inl (RequestException msg), logs)
              | Inr status_code \<Rightarrow> (raise_for_status status_code, logs)))"

subsection \<open>\<^verbatim>\<open>EventHandler.post\<close>\<close>

text \<open>Lines 181-187: the body is parsed; a decode error becomes a 400.\<close>

definition parse_body :: "('j, 'a, 'm, 'r) env \<Rightarrow> HTTPRequest \<Rightarrow> ('j, 'a, 'm) run" where
  "parse_body env req =
     (case json_loads env (body req) of
        Inl ex \<Rightarrow>
          (case ex of
             JSONDecodeError e \<Rightarrow> raise (HTTPError 400 (''Unrecognized request format: '' @ e))
           | TornadoHTTPError c r \<Rightarrow> raise (Raised ex)
           | OtherException s \<Rightarrow> raise (Raised ex))
      | Inr b \<Rightarrow> ok b)"

text \<open>
  Lines 205-209: the dictionary of the request's headers (a later value of a key
  replaces an earlier one), then the key \<^verbatim>\<open>task_type\<close>.
\<close>

definition request_headers :: "HTTPRequest \<Rightarrow> string \<Rightarrow> (string \<times> string) list" where
  "request_headers req task_type =
     AList.update ''task_type'' task_type
       (fold (\<lambda>(key, val) hs. AList.update key val hs) (headers req) [])"

text \<open>
  Lines 211-218: the two conversions, \<^verbatim>\<open>y_true\<close> first, each on its own; a failure is
  raised again with the dictionary as far as it was filled.
\<close>

definition np_inputs ::
  "('j, 'a, 'm, 'r) env \<Rightarrow> 'j \<Rightarrow> 'j \<Rightarrow> ((string \<times> 'a) list, 'a, 'm) run" where
  "np_inputs env y_true y_pred =
     (case np_array env y_true of
        Inl e \<Rightarrow> raise (NumPyArrayFailed e [])
      | Inr a_true \<Rightarrow>
          (case np_array env y_pred of
             Inl e \<Rightarrow> raise (NumPyArrayFailed e [(''y_true'', a_true)])
           | Inr a_pred \<Rightarrow> ok [(''y_true'', a_true), (''y_pred'', a_pred)]))"

text \<open>
  Lines 219 and 221: the call of the model, and the read of \<^verbatim>\<open>response.metrics\<close>, which
  fails when the model returned \<^verbatim>\<open>None\<close>. With no model registered the attribute
  \<^verbatim>\<open>process_event\<close> of \<^verbatim>\<open>None\<close> is read.
\<close>

definition call_model ::
  "('j, 'a, 'm) EventHandler \<Rightarrow> (string \<times> 'a) list \<Rightarrow> (string \<times> string) list \<Rightarrow>
   (('j, 'm) ModelResponse, 'a, 'm) run" where
  "call_model h inputs hdrs =
     (case model h of
        None \<Rightarrow> raise (AttributeError ''process_event'')
      | Some mdl \<Rightarrow>
          and_then (emit (ProcessEvent inputs hdrs)) (\<lambda>u.
          and_then (call (process_event mdl inputs hdrs)) (\<lambda>response.
            case response of
              None \<Rightarrow> raise (AttributeError ''metrics'')
            | Some r \<Rightarrow> ok r)))"

text \<open>Lines 181-221: from the request to the model's response.\<close>

definition invoke_model ::
  "('j, 'a, 'm, 'r) env \<Rightarrow> ('j, 'a, 'm) EventHandler \<Rightarrow> HTTPRequest \<Rightarrow>
   ('j Event \<times> ('j, 'm) ModelResponse, 'a, 'm) run" where
  "invoke_model env h req =
     and_then (parse_body env req) (\<lambda>b.
     and_then (get_request_handler (protocol h) b, []) (\<lambda>request_handler.
     and_then (call (validate env request_handler)) (\<lambda>u.
     and_then (call (extract_request env request_handler)) (\<lambda>(y_pred, y_true, task_type).
     and_then (call (FromRequest env (headers req) (body req))) (\<lambda>event.
     and_then (emit (LogDebug (json_dumps env (Properties env event)))) (\<lambda>u.
     and_then (np_inputs env y_true y_pred) (\<lambda>inputs.
     and_then (call_model h inputs (request_headers req task_type)) (\<lambda>response.
       ok (event, response)))))))))"

text \<open>
  Lines 221-226: a batch that validates is handed to the registry, any other is logged.
  The result is the effects and the registry afterwards.
\<close>

definition metrics_side_effect ::
  "('j, 'a, 'm, 'r) env \<Rightarrow> ('j, 'a, 'm) EventHandler \<Rightarrow> 'm option \<Rightarrow> 'r \<Rightarrow>
   ('a, 'm) effect list \<times> 'r" where
  "metrics_side_effect env h runtime_metrics reg =
     (case runtime_metrics of
        None \<Rightarrow> ([], reg)
      | Some ms \<Rightarrow>
          (if validate_metrics env ms
           then ([MetricsUpdate ms (event_type h)], update env reg ms (event_type h))
           else ([LogError (''Metrics returned are invalid: '' @ str_metrics env ms)], reg)))"

text \<open>Lines 230-243: the reply event.\<close>

definition build_revent ::
  "('j, 'a, 'm, 'r) env \<Rightarrow> ('j, 'a, 'm) EventHandler \<Rightarrow> 'j Event \<Rightarrow> 'j \<Rightarrow> 'j Event" where
  "build_revent env h event d =
     (let resp_event_id =
            (case EventID event of
               None \<Rightarrow> UUID_hex (uuid1 env)
             | Some i \<Rightarrow> if i = [] then UUID_hex (uuid1 env) else i)
      in SetExtensions (Extensions event)
          (SetEventTime (utcnow_isoformat env)
            (SetEventType (event_type h)
              (SetSource (event_source h)
                (SetEventID resp_event_id
                  (SetData d
                    (SetContentType ''application/json'' v1_Event)))))))"

text \<open>
  Lines 230-231 once more, for the effect: \<^verbatim>\<open>uuid.uuid1()\<close> is called exactly when the id
  of the inbound event is \<^verbatim>\<open>None\<close> or empty.
\<close>

definition uuid1_calls :: "('j, 'a, 'm, 'r) env \<Rightarrow> 'j Event \<Rightarrow> ('a, 'm) effect list" where
  "uuid1_calls env event =
     (case EventID event of
        None \<Rightarrow> [Uuid1 (uuid1 env)]
      | Some i \<Rightarrow> if i = [] then [Uuid1 (uuid1 env)] else [])"

text \<open>
  Lines 227-246: with \<^verbatim>\<open>response.data\<close> present, the reply is sent unless
  \<^verbatim>\<open>self.reply_url == ""\<close>, and then the data is given to tornado as the body.
\<close>

definition relay_and_respond ::
  "('j, 'a, 'm, 'r) env \<Rightarrow> ('j, 'a, 'm) EventHandler \<Rightarrow> 'j Event \<Rightarrow> 'j option \<Rightarrow>
   (unit, 'a, 'm) run" where
  "relay_and_respond env h event response_data =
     (case response_data of
        None \<Rightarrow> ok ()
      | Some d \<Rightarrow>
          and_then
            (if reply_url h \<noteq> Some []
             then and_then (Inr (), uuid1_calls env event) (\<lambda>u.
                  and_then
                    (emit (LogDebug (json_dumps env (Properties env (build_revent env h event d)))))
                    (\<lambda>u. sendCloudEvent env (build_revent env h event d) (reply_url h)))
             else ok ())
            (\<lambda>u. emit (Write (json_dumps env d))))"

text \<open>
  What a request leaves behind: how the handler ended, its effects in order, and the
  registry (the one object the handler shares with later requests).
\<close>

record ('a, 'm, 'r) result =
  outcome :: "'a error + unit"
  effects :: "('a, 'm) effect list"
  registry :: 'r

text \<open>\<^verbatim>\<open>post\<close> (lines 177-246).\<close>

definition post ::
  "('j, 'a, 'm, 'r) env \<Rightarrow> ('j, 'a, 'm) EventHandler \<Rightarrow> HTTPRequest \<Rightarrow> 'r \<Rightarrow> ('a, 'm, 'r) result" where
  "post env h req reg =
     (case invoke_model env h req of
        (Inl e, w) \<Rightarrow> \<lparr>outcome = Inl e, effects = w, registry = reg\<rparr>
      | (Inr (event, response), w) \<Rightarrow>
          (case metrics_side_effect env h (metrics response) reg of
             (w1, reg') \<Rightarrow>
               (case relay_and_respond env h event (data response) of
                  (r, w2) \<Rightarrow> \<lparr>outcome = r, effects = w @ w1 @ w2, registry = reg'\<rparr>)))"

section \<open>An example deployment\<close>

text \<open>
  A concrete environment, used only to run the definitions: JSON values as a datatype, a
  small table of bodies for the parser, events in binary mode (the \<^verbatim>\<open>ce-\<close> headers),
  arrays with numpy's shape rule, a registry that keeps the batches it was given, and a
  downstream consumer that answers by URL.
\<close>

datatype json = JNull | JNum int | JStr string | JArr "json list" | JObj "(string \<times> json) list"

definition quoted :: "string \<Rightarrow> string" where
  "quoted s = [CHR 0x22] @ s @ [CHR 0x22]"

fun dumps :: "json \<Rightarrow> string"
  and dumps_items :: "json list \<Rightarrow> string"
  and dumps_members :: "(string \<times> json) list \<Rightarrow> string" where
  "dumps JNull = ''null''"
| "dumps (JNum n) = str_int n"
| "dumps (JStr s) = quoted s"
| "dumps (JArr xs) = ''['' @ dumps_items xs @ '']''"
| "dumps (JObj ms) = ''{'' @ dumps_members ms @ ''}''"
| "dumps_items [] = []"
| "dumps_items [x] = dumps x"
| "dumps_items (x # y # ys) = dumps x @ '', '' @ dumps_items (y # ys)"
| "dumps_members [] = []"
| "dumps_members [(k, v)] = quoted k @ '': '' @ dumps v"
| "dumps_members ((k, v) # m # ms) = quoted k @ '': '' @ dumps v @ '', '' @ dumps_members (m # ms)"

text \<open>
  \<^verbatim>\<open>numpy.array\<close> on nested lists (numpy 1.24 and later): the nesting must be
  rectangular, a ragged one raises \<^verbatim>\<open>ValueError\<close>. Anything that is not a list is a scalar.
\<close>

fun np_shape :: "json \<Rightarrow> nat list option" where
  "np_shape (JArr xs) =
     (case map np_shape xs of
        [] \<Rightarrow> Some [0]
      | s # ss \<Rightarrow>
          (case s of
             None \<Rightarrow> None
           | Some d \<Rightarrow> if list_all (\<lambda>t. t = Some d) ss then Some (length xs # d) else None))"
| "np_shape j = Some []"

datatype ndarray = NDArray "nat list" json

definition example_np_array :: "json \<Rightarrow> pyexc + ndarray" where
  "example_np_array j =
     (case np_shape j of
        None \<Rightarrow> Inl (OtherException ''ValueError: inhomogeneous shape'')
      | Some sh \<Rightarrow> Inr (NDArray sh j))"

definition well_formed_body :: string where
  "well_formed_body = ''{'' @ quoted ''y_pred'' @ '': [1, 0, 1], '' @ quoted ''y_true''
     @ '': [1, 1, 1], '' @ quoted ''task_type'' @ '': '' @ quoted ''classification'' @ ''}''"

definition mismatched_body :: string where
  "mismatched_body = ''{'' @ quoted ''y_pred'' @ '': [1, 0, 1], '' @ quoted ''y_true''
     @ '': [1, 1], '' @ quoted ''task_type'' @ '': '' @ quoted ''classification'' @ ''}''"

definition ragged_body :: string where
  "ragged_body = ''{'' @ quoted ''y_pred'' @ '': [1, 0, 1], '' @ quoted ''y_true''
     @ '': [[1, 1], [1]], '' @ quoted ''task_type'' @ '': '' @ quoted ''classification'' @ ''}''"

definition payload :: "json \<Rightarrow> json \<Rightarrow> json" where
  "payload y_pred y_true =
     JObj [(''y_pred'', y_pred), (''y_true'', y_true), (''task_type'', JStr ''classification'')]"

text \<open>
  The bodies of the example with what \<^verbatim>\<open>json.loads\<close> answers to each: three documents,
  the text \<^verbatim>\<open>not json\<close>, which the parser rejects with its decode error, and the single
  byte \<^verbatim>\<open>0xff\<close>, which is not UTF-8 text, so that decoding the bytes fails before the
  parser runs (\<^verbatim>\<open>UnicodeDecodeError\<close>, not a \<^verbatim>\<open>JSONDecodeError\<close>). The example has no
  other bodies: the stand-in answers them with an exception that says so.
\<close>

definition undecodable_body :: string where
  "undecodable_body = [CHR 0xFF]"

definition undecodable_message :: string where
  "undecodable_message =
     ''UnicodeDecodeError: '' @ [CHR 0x27] @ ''utf-8'' @ [CHR 0x27] @ '' codec can'' @ [CHR 0x27]
       @ ''t decode byte 0xff in position 0: invalid start byte''"

definition example_documents :: "(string \<times> (pyexc + json)) list" where
  "example_documents =
     [(well_formed_body,
         Inr (payload (JArr [JNum 1, JNum 0, JNum 1]) (JArr [JNum 1, JNum 1, JNum 1]))),
      (mismatched_body, Inr (payload (JArr [JNum 1, JNum 0, JNum 1]) (JArr [JNum 1, JNum 1]))),
      (ragged_body,
         Inr (payload (JArr [JNum 1, JNum 0, JNum 1])
                (JArr [JArr [JNum 1, JNum 1], JArr [JNum 1]]))),
      (''not json'', Inl (JSONDecodeError ''Expecting value: line 1 column 1 (char 0)'')),
      (undecodable_body, Inl (OtherException undecodable_message))]"

definition example_json_loads :: "string \<Rightarrow> pyexc + json" where
  "example_json_loads s =
     (case map_of example_documents s of
        None \<Rightarrow> Inl (OtherException ''not a body of the example'')
      | Some answer \<Rightarrow> answer)"

definition example_extract_request :: "json RequestHandler \<Rightarrow> pyexc + (json \<times> json \<times> string)" where
  "example_extract_request rh =
     (case rh of
        CommonRequestHandler (JObj ms) \<Rightarrow>
          (case (map_of ms ''y_pred'', map_of ms ''y_true'', map_of ms ''task_type'') of
             (Some p, Some t, Some (JStr tt)) \<Rightarrow> Inr (p, t, tt)
           | _ \<Rightarrow> Inl (OtherException ''KeyError''))
      | _ \<Rightarrow> Inl (OtherException ''TypeError''))"

definition ce_attribute_headers :: "string list" where
  "ce_attribute_headers = [''ce-specversion'', ''ce-id'', ''ce-source'', ''ce-type'', ''ce-time'']"

definition example_FromRequest :: "(string \<times> string) list \<Rightarrow> string \<Rightarrow> pyexc + json Event" where
  "example_FromRequest hs b =
     (case example_json_loads b of
        Inl ex \<Rightarrow> Inl ex
      | Inr j \<Rightarrow>
          Inr \<lparr>ce_specversion = ''1.0'', ce_id = map_of hs ''ce-id'',
               ce_source = map_of hs ''ce-source'', ce_type = map_of hs ''ce-type'',
               ce_datacontenttype = map_of hs ''content-type'', ce_time = map_of hs ''ce-time'',
               ce_extensions =
                 map (\<lambda>(k, v). (drop 3 k, JStr v))
                   (filter (\<lambda>(k, v). take 3 k = ''ce-'' \<and> k \<notin> set ce_attribute_headers) hs),
               ce_data = Some j\<rparr>)"

definition header_of :: "string \<Rightarrow> string option \<Rightarrow> (string \<times> string) list" where
  "header_of k v = (case v of None \<Rightarrow> [] | Some s \<Rightarrow> [(k, s)])"

definition example_ToRequest :: "json Event \<Rightarrow> (string \<times> string) list \<times> string" where
  "example_ToRequest ev =
     ([(''ce-specversion'', ce_specversion ev)]
        @ header_of ''ce-id'' (ce_id ev) @ header_of ''ce-source'' (ce_source ev)
        @ header_of ''ce-type'' (ce_type ev) @ header_of ''content-type'' (ce_datacontenttype ev)
        @ header_of ''ce-time'' (ce_time ev)
        @ map (\<lambda>(k, v). (''ce-'' @ k, case v of JStr s \<Rightarrow> s | _ \<Rightarrow> dumps v)) (ce_extensions ev),
      case ce_data ev of None \<Rightarrow> [] | Some d \<Rightarrow> dumps d)"

definition example_Properties :: "json Event \<Rightarrow> json" where
  "example_Properties ev =
     JObj ([(''specversion'', JStr (ce_specversion ev))]
        @ map (\<lambda>(k, v). (k, case v of None \<Rightarrow> JNull | Some s \<Rightarrow> JStr s))
            [(''id'', ce_id ev), (''source'', ce_source ev), (''type'', ce_type ev),
             (''datacontenttype'', ce_datacontenttype ev), (''time'', ce_time ev)]
        @ [(''extensions'', JObj (ce_extensions ev)),
           (''data'', case ce_data ev of None \<Rightarrow> JNull | Some d \<Rightarrow> d)])"

text \<open>A batch is a list of records; a record is accepted when its \<^verbatim>\<open>value\<close> is a number.\<close>

fun metric_ok :: "json \<Rightarrow> bool" where
  "metric_ok (JObj ms) = (case map_of ms ''value'' of Some (JNum v) \<Rightarrow> True | _ \<Rightarrow> False)"
| "metric_ok j = False"

definition example_validate_metrics :: "json \<Rightarrow> bool" where
  "example_validate_metrics batch = (case batch of JArr rs \<Rightarrow> list_all metric_ok rs | _ \<Rightarrow> False)"

definition example_requests_post ::
  "string option \<Rightarrow> (string \<times> string) list \<Rightarrow> string \<Rightarrow> string + nat" where
  "example_requests_post url hs d =
     (case url of
        None \<Rightarrow> Inl ''MissingSchema: Invalid URL None: No scheme supplied''
      | Some u \<Rightarrow>
          if u = ''http://unreachable/'' then Inl ''ConnectionError: connection refused''
          else if u = ''http://sink/not-modified'' then Inr 304
          else if u = ''http://sink/unavailable'' then Inr 503
          else Inr 200)"

definition example_env :: "(json, ndarray, json, (json \<times> string) list) env" where
  "example_env =
     \<lparr>json_loads = example_json_loads, json_dumps = dumps,
      validate = (\<lambda>rh. Inr ()), extract_request = example_extract_request,
      FromRequest = example_FromRequest, ToRequest = example_ToRequest,
      Properties = example_Properties, np_array = example_np_array,
      validate_metrics = example_validate_metrics,
      update = (\<lambda>reg batch etype. reg @ [(batch, etype)]),
      str_metrics = dumps,
      uuid1 = 0x8a6e0804d2cb11eeb5060242ac120002,
      utcnow_isoformat = ''2024-02-24T09:30:00.000000+00:00'',
      requests_post = example_requests_post\<rparr>"

definition example_model :: "(json, json) ModelResponse \<Rightarrow> (json, ndarray, json) CEModel" where
  "example_model response = \<lparr>name = ''accuracy'', process_event = (\<lambda>inputs hdrs. Inr (Some response))\<rparr>"

definition example_handler ::
  "string option \<Rightarrow> (json, json) ModelResponse \<Rightarrow> (json, ndarray, json) EventHandler" where
  "example_handler url response =
     \<lparr>protocol = common_http, reply_url = url, event_type = ''io.bdilab.monitor.metrics'',
      event_source = ''io.bdilab.monitor'', model = Some (example_model response)\<rparr>"

definition example_request :: "string \<Rightarrow> HTTPRequest" where
  "example_request b =
     \<lparr>body = b,
      headers = [(''content-type'', ''application/json''), (''ce-specversion'', ''1.0''),
                 (''ce-id'', []), (''ce-source'', ''client''), (''ce-type'', ''prediction''),
                 (''ce-a'', ''1''), (''ce-b'', ''2'')]\<rparr>"

definition accuracy_data :: json where
  "accuracy_data = JObj [(''accuracy'', JNum 1)]"

definition valid_batch :: json where
  "valid_batch = JArr [JObj [(''key'', JStr ''hits''), (''type'', JStr ''COUNTER''), (''value'', JNum 2)]]"

definition invalid_batch :: json where
  "invalid_batch =
     JArr [JObj [(''key'', JStr ''hits''), (''type'', JStr ''COUNTER''), (''value'', JNum 2)],
           JObj [(''key'', JStr ''ratio''), (''type'', JStr ''GAUGE''), (''value'', JStr ''high'')]]"

definition reply_event :: "json Event" where
  "reply_event =
     build_revent example_env (example_handler None \<lparr>data = None, metrics = None\<rparr>)
       (v1_Event\<lparr>ce_extensions := [(''a'', JStr ''1'')]\<rparr>) accuracy_data"

definition grpc_handler :: "(json, json) ModelResponse \<Rightarrow> (json, ndarray, json) EventHandler" where
  "grpc_handler response = (example_handler (Some []) response)\<lparr>protocol := other_protocol ''grpc''\<rparr>"



text \<open>The event the marshaller reads from \<open>example_request\<close>: an empty id, two extensions.\<close>

definition inbound_event :: "json \<Rightarrow> json Event" where
  "inbound_event j =
     \<lparr>ce_specversion = ''1.0'', ce_id = Some [], ce_source = Some ''client'',
      ce_type = Some ''prediction'', ce_datacontenttype = Some ''application/json'',
      ce_time = None, ce_extensions = [(''a'', JStr ''1''), (''b'', JStr ''2'')],
      ce_data = Some j\<rparr>"

definition well_formed_payload :: json where
  "well_formed_payload = payload (JArr [JNum 1, JNum 0, JNum 1]) (JArr [JNum 1, JNum 1, JNum 1])"

definition mismatched_payload :: json where
  "mismatched_payload = payload (JArr [JNum 1, JNum 0, JNum 1]) (JArr [JNum 1, JNum 1])"

definition ragged_payload :: json where
  "ragged_payload =
     payload (JArr [JNum 1, JNum 0, JNum 1]) (JArr [JArr [JNum 1, JNum 1], JArr [JNum 1]])"





section \<open>Properties\<close>

subsection \<open>Sequencing and the shape of the effects\<close>

lemma and_then_cases:
  "and_then m f = (r, w) \<Longrightarrow>
     (\<exists>e. m = (Inl e, w) \<and> r = Inl e) \<or>
     (\<exists>x w1 w2. m = (Inr x, w1) \<and> f x = (r, w2) \<and> w = w1 @ w2)"
  by (auto simp: and_then_def split: prod.splits sum.splits)

lemma invoke_model_Inr:
  assumes "invoke_model env h req = (Inr (ev, resp), w)"
  shows "\<exists>b y_pred y_true tt a_true a_pred mdl.
     json_loads env (body req) = Inr b \<and> protocol h = common_http
   \<and> validate env (CommonRequestHandler b) = Inr ()
   \<and> extract_request env (CommonRequestHandler b) = Inr (y_pred, y_true, tt)
   \<and> FromRequest env (headers req) (body req) = Inr ev
   \<and> np_array env y_true = Inr a_true \<and> np_array env y_pred = Inr a_pred
   \<and> model h = Some mdl
   \<and> process_event mdl [(''y_true'', a_true), (''y_pred'', a_pred)] (request_headers req tt)
       = Inr (Some resp)
   \<and> w = [LogDebug (json_dumps env (Properties env ev)),
          ProcessEvent [(''y_true'', a_true), (''y_pred'', a_pred)] (request_headers req tt)]"
  using assms
  unfolding invoke_model_def parse_body_def get_request_handler_def call_def np_inputs_def
    call_model_def and_then_def raise_def ok_def emit_def
  by (auto split: sum.splits pyexc.splits prod.splits if_splits option.splits)

lemma invoke_model_Inr_effects:
  assumes "invoke_model env h req = (Inr (ev, resp), w)"
  shows "\<not> list_ex is_Write w \<and> \<not> list_ex is_HttpPost w \<and> \<not> list_ex is_MetricsUpdate w"
  using invoke_model_Inr [OF assms] by auto

lemma invoke_model_not_UnknownProtocol:
  assumes "protocol h = common_http"
  shows "fst (invoke_model env h req) \<noteq> Inl (UnknownProtocol q)"
  using assms
  unfolding invoke_model_def parse_body_def get_request_handler_def call_def np_inputs_def
    call_model_def and_then_def raise_def ok_def emit_def
  by (auto split: sum.splits pyexc.splits prod.splits if_splits option.splits)



lemma sendCloudEvent_effects:
  "snd (sendCloudEvent env ev url) =
     [LogInfo ''binary CloudEvent'']
     @ map (\<lambda>(k, v). LogInfo (k @ '': '' @ v @ [CHR 0x0D, CHR 0x0A])) (fst (ToRequest env ev))
     @ [LogInfo (snd (ToRequest env ev)),
        HttpPost url (fst (ToRequest env ev)) (snd (ToRequest env ev))]"
  by (simp add: sendCloudEvent_def Let_def split: prod.splits sum.splits)

lemma sendCloudEvent_posts_once:
  "filter is_HttpPost (snd (sendCloudEvent env ev url)) =
     [HttpPost url (fst (ToRequest env ev)) (snd (ToRequest env ev))]"
  by (simp add: sendCloudEvent_effects filter_map comp_def case_prod_beta)

lemma sendCloudEvent_no_Write: "filter is_Write (snd (sendCloudEvent env ev url)) = []"
  by (simp add: sendCloudEvent_effects filter_map comp_def case_prod_beta)

lemma sendCloudEvent_no_MetricsUpdate:
  "filter is_MetricsUpdate (snd (sendCloudEvent env ev url)) = []"
  by (simp add: sendCloudEvent_effects filter_map comp_def case_prod_beta)

lemma sendCloudEvent_result:
  "fst (sendCloudEvent env ev url) =
     (case requests_post env url (fst (ToRequest env ev)) (snd (ToRequest env ev)) of
        Inl msg \<Rightarrow> Inl (RequestException msg)
      | Inr status_code \<Rightarrow> raise_for_status status_code)"
  by (simp add: sendCloudEvent_def Let_def split: prod.splits sum.splits)

lemma sendCloudEvent_error_status:
  "fst (sendCloudEvent env ev url) = Inl e \<Longrightarrow> http_status (Inl e) = 500"
  by (auto simp: sendCloudEvent_result raise_for_status_def split: sum.splits if_splits)

lemma list_ex_filter: "list_ex P xs \<longleftrightarrow> filter P xs \<noteq> []"
  by (induction xs) auto

lemma uuid1_calls_filter:
  "filter is_Write (uuid1_calls env ev) = []"
  "filter is_HttpPost (uuid1_calls env ev) = []"
  "filter is_MetricsUpdate (uuid1_calls env ev) = []"
  by (simp_all add: uuid1_calls_def split: option.splits)

lemma relay_and_respond_relayed:
  assumes "reply_url h \<noteq> Some []"
  shows "relay_and_respond env h ev (Some d) =
     (case sendCloudEvent env (build_revent env h ev d) (reply_url h) of
        (Inl e, w) \<Rightarrow>
          (Inl e, uuid1_calls env ev
                  @ LogDebug (json_dumps env (Properties env (build_revent env h ev d))) # w)
      | (Inr u, w) \<Rightarrow>
          (Inr (), uuid1_calls env ev
                   @ LogDebug (json_dumps env (Properties env (build_revent env h ev d))) # w
                   @ [Write (json_dumps env d)]))"
  using assms
  by (simp add: relay_and_respond_def and_then_def emit_def split: prod.splits sum.splits)

lemma relay_and_respond_no_MetricsUpdate:
  "filter is_MetricsUpdate (snd (relay_and_respond env h ev rd)) = []"
proof (cases rd)
  case None
  then show ?thesis by (simp add: relay_and_respond_def ok_def)
next
  case (Some d)
  show ?thesis
  proof (cases "reply_url h = Some []")
    case True
    with Some show ?thesis
      by (simp add: relay_and_respond_def and_then_def ok_def emit_def)
  next
    case False
    have "filter is_MetricsUpdate (snd (sendCloudEvent env (build_revent env h ev d) (reply_url h))) = []"
      by (rule sendCloudEvent_no_MetricsUpdate)
    with Some False show ?thesis
      by (auto simp: relay_and_respond_relayed uuid1_calls_filter split: prod.splits sum.splits)
  qed
qed

lemma post_Inr:
  assumes "invoke_model env h req = (Inr (ev, response), w)"
  shows "post env h req reg =
     \<lparr>outcome = fst (relay_and_respond env h ev (data response)),
      effects = w @ fst (metrics_side_effect env h (metrics response) reg)
                  @ snd (relay_and_respond env h ev (data response)),
      registry = snd (metrics_side_effect env h (metrics response) reg)\<rparr>"
  using assms by (simp add: post_def split: prod.splits)

lemma post_Inl:
  assumes "invoke_model env h req = (Inl e, w)"
  shows "post env h req reg = \<lparr>outcome = Inl e, effects = w, registry = reg\<rparr>"
  using assms by (simp add: post_def)

subsection \<open>The digits of a UUID\<close>










subsection \<open>Running the example deployment\<close>

lemma example_json_loads_well_formed:
  "json_loads example_env (body (example_request well_formed_body)) = Inr well_formed_payload"
  by (simp add: example_env_def example_request_def example_json_loads_def
      example_documents_def well_formed_payload_def)

lemma example_json_loads_mismatched:
  "json_loads example_env (body (example_request mismatched_body)) = Inr mismatched_payload"
  by (simp add: example_env_def example_request_def example_json_loads_def
      example_documents_def mismatched_payload_def well_formed_body_def mismatched_body_def
      quoted_def)

lemma example_json_loads_ragged:
  "json_loads example_env (body (example_request ragged_body)) = Inr ragged_payload"
  by (simp add: example_env_def example_request_def example_json_loads_def
      example_documents_def ragged_payload_def well_formed_body_def mismatched_body_def
      ragged_body_def quoted_def)



lemma example_FromRequest:
  assumes "json_loads example_env (body (example_request b)) = Inr j"
  shows "FromRequest example_env (headers (example_request b)) (body (example_request b))
     = Inr (inbound_event j)"
  using assms
  by (simp add: example_env_def example_request_def example_FromRequest_def inbound_event_def
      ce_attribute_headers_def)

lemma example_validate:
  "validate example_env rh = Inr ()"
  by (simp add: example_env_def)

lemma example_extract_request:
  "extract_request example_env (CommonRequestHandler (payload p t)) = Inr (p, t, ''classification'')"
  by (simp add: example_env_def example_extract_request_def payload_def)

lemma example_np_array_flat3:
  "np_array example_env (JArr [JNum a, JNum b, JNum c]) = Inr (NDArray [3] (JArr [JNum a, JNum b, JNum c]))"
  by (simp add: example_env_def example_np_array_def)

lemma example_np_array_flat2:
  "np_array example_env (JArr [JNum a, JNum b]) = Inr (NDArray [2] (JArr [JNum a, JNum b]))"
  by (simp add: example_env_def example_np_array_def)

lemma example_np_array_ragged:
  "np_array example_env (JArr [JArr [JNum 1, JNum 1], JArr [JNum 1]])
     = Inl (OtherException ''ValueError: inhomogeneous shape'')"
  by (simp add: example_env_def example_np_array_def)

lemma example_invoke_model_well_formed:
  "fst (invoke_model example_env (example_handler url response) (example_request well_formed_body))
     = Inr (inbound_event well_formed_payload, response)"
  using example_json_loads_well_formed
    example_FromRequest [OF example_json_loads_well_formed]
  by (simp add: invoke_model_def parse_body_def get_request_handler_def call_def np_inputs_def
      call_model_def and_then_def ok_def emit_def example_handler_def example_model_def
      example_validate well_formed_payload_def example_extract_request
      example_np_array_flat3)

lemma example_invoke_model_mismatched:
  "fst (invoke_model example_env (example_handler url response) (example_request mismatched_body))
     = Inr (inbound_event mismatched_payload, response)"
  using example_json_loads_mismatched
    example_FromRequest [OF example_json_loads_mismatched]
  by (simp add: invoke_model_def parse_body_def get_request_handler_def call_def np_inputs_def
      call_model_def and_then_def ok_def emit_def example_handler_def example_model_def
      example_validate mismatched_payload_def example_extract_request
      example_np_array_flat3 example_np_array_flat2)

lemma example_invoked:
  assumes "fst (invoke_model env h req) = Inr (ev, response)"
  shows "invoke_model env h req = (Inr (ev, response), snd (invoke_model env h req))"
  using assms by (metis prod.collapse)

lemma example_send:
  "fst (sendCloudEvent example_env ev url) =
     (case example_requests_post url (fst (example_ToRequest ev)) (snd (example_ToRequest ev)) of
        Inl msg \<Rightarrow> Inl (RequestException msg)
      | Inr status_code \<Rightarrow> raise_for_status status_code)"
  by (simp add: sendCloudEvent_result example_env_def)



subsection \<open>Malformed JSON\<close>




subsection \<open>Delivery\<close>

text \<open>
  Claim C6, as the code has it. One call of \<^verbatim>\<open>sendCloudEvent\<close> posts exactly once, the
  headers and the data the marshaller produced, to the URL it was given. It fails when
  \<^verbatim>\<open>requests.post\<close> fails and when the status of the response is from 400 to 599; for
  any other status (so also for a 3xx or 1xx status that reaches it) it returns.
\<close>

theorem C6_send_posts_once_and_raises_for_4xx_5xx:
  "filter is_HttpPost (snd (sendCloudEvent env ev url)) =
     [HttpPost url (fst (ToRequest env ev)) (snd (ToRequest env ev))]
   \<and> (requests_post env url (fst (ToRequest env ev)) (snd (ToRequest env ev)) = Inl msg
        \<longrightarrow> fst (sendCloudEvent env ev url) = Inl (RequestException msg))
   \<and> (requests_post env url (fst (ToRequest env ev)) (snd (ToRequest env ev)) = Inr code
        \<and> 400 \<le> code \<and> code < 600
        \<longrightarrow> fst (sendCloudEvent env ev url) = Inl (RequestsHTTPError code))
   \<and> (requests_post env url (fst (ToRequest env ev)) (snd (ToRequest env ev)) = Inr code
        \<and> (code < 400 \<or> 600 \<le> code)
        \<longrightarrow> fst (sendCloudEvent env ev url) = Inr ())"
  by (auto simp: sendCloudEvent_posts_once sendCloudEvent_result raise_for_status_def)

theorem C6_send_witness:
  "requests_post example_env (Some ''http://unreachable/'')
       (fst (ToRequest example_env reply_event)) (snd (ToRequest example_env reply_event))
     = Inl ''ConnectionError: connection refused''
   \<and> fst (sendCloudEvent example_env reply_event (Some ''http://unreachable/''))
     = Inl (RequestException ''ConnectionError: connection refused'')
   \<and> requests_post example_env (Some ''http://sink/unavailable'')
       (fst (ToRequest example_env reply_event)) (snd (ToRequest example_env reply_event))
     = Inr 503
   \<and> fst (sendCloudEvent example_env reply_event (Some ''http://sink/unavailable''))
     = Inl (RequestsHTTPError 503)
   \<and> requests_post example_env (Some ''http://sink/ok'')
       (fst (ToRequest example_env reply_event)) (snd (ToRequest example_env reply_event))
     = Inr 200
   \<and> fst (sendCloudEvent example_env reply_event (Some ''http://sink/ok'')) = Inr ()"
proof -
  have down: "requests_post example_env (Some ''http://unreachable/'')
       (fst (ToRequest example_env reply_event)) (snd (ToRequest example_env reply_event))
     = Inl ''ConnectionError: connection refused''"
    by (simp add: example_env_def example_requests_post_def)
  have unavailable: "requests_post example_env (Some ''http://sink/unavailable'')
       (fst (ToRequest example_env reply_event)) (snd (ToRequest example_env reply_event))
     = Inr 503"
    by (simp add: example_env_def example_requests_post_def)
  have fine: "requests_post example_env (Some ''http://sink/ok'')
       (fst (ToRequest example_env reply_event)) (snd (ToRequest example_env reply_event))
     = Inr 200"
    by (simp add: example_env_def example_requests_post_def)
  from C6_send_posts_once_and_raises_for_4xx_5xx
         [of example_env reply_event "Some ''http://unreachable/''"
             "''ConnectionError: connection refused''" 0]
       C6_send_posts_once_and_raises_for_4xx_5xx
         [of example_env reply_event "Some ''http://sink/unavailable''" "[]" 503]
       C6_send_posts_once_and_raises_for_4xx_5xx
         [of example_env reply_event "Some ''http://sink/ok''" "[]" 200]
       down unavailable fine
  show ?thesis by simp
qed

text \<open>
  The claim as the spec words it (a failure for every status outside 2xx) does not hold:
  a response with status 304 is not an error for \<^verbatim>\<open>raise_for_status\<close>.
\<close>

theorem C6_not_modified_counterexample:
  "requests_post example_env (Some ''http://sink/not-modified'')
       (fst (ToRequest example_env reply_event)) (snd (ToRequest example_env reply_event))
     = Inr 304
   \<and> fst (sendCloudEvent example_env reply_event (Some ''http://sink/not-modified'')) = Inr ()"
  by (simp add: sendCloudEvent_result raise_for_status_def example_env_def
      example_requests_post_def)


subsection \<open>Protocol resolution\<close>

text \<open>
  Claim C7, as the code has it. \<^verbatim>\<open>get_request_handler\<close> raises for every protocol other
  than \<^verbatim>\<open>common_http\<close> and returns a \<^verbatim>\<open>CommonRequestHandler\<close> for \<^verbatim>\<open>common_http\<close>; a
  handler configured with \<^verbatim>\<open>common_http\<close> never ends a request with the unknown-protocol
  error. The constructor does not look at the protocol: a server constructed with any
  protocol starts (given a named model) and serves with that protocol, and with a protocol
  other than \<^verbatim>\<open>common_http\<close> every request whose body parses ends with the
  unknown-protocol error, a server error, before the model is invoked.
\<close>

theorem C7_protocol_resolution:
  fixes env :: "('j, 'a, 'm, 'r) env" and b :: 'j
  shows
  "(p \<noteq> common_http \<longrightarrow>
      get_request_handler p b = (Inl (UnknownProtocol p) :: 'a error + 'j RequestHandler))
   \<and> get_request_handler common_http b = (Inr (CommonRequestHandler b) :: 'a error + 'j RequestHandler)
   \<and> (protocol h = common_http \<longrightarrow> outcome (post env h req reg) \<noteq> Inl (UnknownProtocol q))
   \<and> (name mdl \<noteq> [] \<longrightarrow>
        (\<exists>h'. deployed (CEServer_init p etype esource port url) mdl = Some h' \<and> protocol h' = p))
   \<and> (protocol h \<noteq> common_http \<and> json_loads env (body req) = Inr b' \<longrightarrow>
        outcome (post env h req reg) = Inl (UnknownProtocol (protocol h))
        \<and> http_status (outcome (post env h req reg)) = 500
        \<and> \<not> list_ex is_ProcessEvent (effects (post env h req reg)))"
proof -
  have resolve: "p \<noteq> common_http \<longrightarrow>
      get_request_handler p b = (Inl (UnknownProtocol p) :: 'a error + 'j RequestHandler)"
    by (simp add: get_request_handler_def)
  have common:
    "get_request_handler common_http b = (Inr (CommonRequestHandler b) :: 'a error + 'j RequestHandler)"
    by (simp add: get_request_handler_def)
  have unreachable:
    "protocol h = common_http \<longrightarrow> outcome (post env h req reg) \<noteq> Inl (UnknownProtocol q)"
  proof
    assume c: "protocol h = common_http"
    show "outcome (post env h req reg) \<noteq> Inl (UnknownProtocol q)"
    proof (cases "invoke_model env h req")
      case (Pair r w)
      show ?thesis
      proof (cases r)
        case (Inl e)
        with Pair invoke_model_not_UnknownProtocol [OF c, of env req q] show ?thesis
          by (simp add: post_Inl)
      next
        case (Inr er)
        obtain ev response where er: "er = (ev, response)" by (cases er)
        have "fst (relay_and_respond env h ev (data response)) \<noteq> Inl (UnknownProtocol q)"
          by (auto simp: relay_and_respond_def and_then_def ok_def emit_def
              sendCloudEvent_def raise_for_status_def Let_def
              split: option.splits prod.splits sum.splits if_splits)
        with Pair Inr er show ?thesis
          by (simp add: post_Inr)
      qed
    qed
  qed
  have constructed: "name mdl \<noteq> [] \<longrightarrow>
      (\<exists>h'. deployed (CEServer_init p etype esource port url) mdl = Some h' \<and> protocol h' = p)"
    by (simp add: deployed_def CEServer_init_def start_def register_model_def emit_def
        create_application_def)
  have per_request: "protocol h \<noteq> common_http \<and> json_loads env (body req) = Inr b' \<longrightarrow>
        outcome (post env h req reg) = Inl (UnknownProtocol (protocol h))
        \<and> http_status (outcome (post env h req reg)) = 500
        \<and> \<not> list_ex is_ProcessEvent (effects (post env h req reg))"
  proof
    assume a: "protocol h \<noteq> common_http \<and> json_loads env (body req) = Inr b'"
    then have "invoke_model env h req = (Inl (UnknownProtocol (protocol h)), [])"
      by (simp add: invoke_model_def parse_body_def get_request_handler_def and_then_def ok_def)
    then show "outcome (post env h req reg) = Inl (UnknownProtocol (protocol h))
        \<and> http_status (outcome (post env h req reg)) = 500
        \<and> \<not> list_ex is_ProcessEvent (effects (post env h req reg))"
      by (simp add: post_Inl)
  qed
  from resolve common unreachable constructed per_request show ?thesis
    by blast
qed

theorem C7_protocol_resolution_witness:
  "get_request_handler (other_protocol ''grpc'') JNull
     = (Inl (UnknownProtocol (other_protocol ''grpc'')) :: ndarray error + json RequestHandler)
   \<and> protocol (example_handler None \<lparr>data = Some accuracy_data, metrics = None\<rparr>) = common_http
   \<and> outcome (post example_env (example_handler None \<lparr>data = Some accuracy_data, metrics = None\<rparr>)
        (example_request well_formed_body) []) \<noteq> Inl (UnknownProtocol (other_protocol ''grpc''))
   \<and> name (example_model \<lparr>data = Some accuracy_data, metrics = None\<rparr>) \<noteq> []
   \<and> protocol (grpc_handler \<lparr>data = Some accuracy_data, metrics = None\<rparr>) \<noteq> common_http
   \<and> json_loads example_env (body (example_request well_formed_body))
       = Inr (payload (JArr [JNum 1, JNum 0, JNum 1]) (JArr [JNum 1, JNum 1, JNum 1]))
   \<and> outcome (post example_env (grpc_handler \<lparr>data = Some accuracy_data, metrics = None\<rparr>)
        (example_request well_formed_body) []) = Inl (UnknownProtocol (other_protocol ''grpc''))"
proof -
  have c: "protocol (example_handler None \<lparr>data = Some accuracy_data, metrics = None\<rparr>) = common_http"
    by (simp add: example_handler_def)
  have n: "name (example_model \<lparr>data = Some accuracy_data, metrics = None\<rparr>) \<noteq> []"
    by (simp add: example_model_def)
  have g: "protocol (grpc_handler \<lparr>data = Some accuracy_data, metrics = None\<rparr>)
      = other_protocol ''grpc''"
    by (simp add: grpc_handler_def example_handler_def)
  have j: "json_loads example_env (body (example_request well_formed_body))
       = Inr (payload (JArr [JNum 1, JNum 0, JNum 1]) (JArr [JNum 1, JNum 1, JNum 1]))"
    by (simp add: example_env_def example_request_def example_json_loads_def
        example_documents_def)
  note known = C7_protocol_resolution
         [of "other_protocol ''grpc''" JNull
             "example_handler None \<lparr>data = Some accuracy_data, metrics = None\<rparr>"
             example_env "example_request well_formed_body" "[]" "other_protocol ''grpc''"
             "example_model \<lparr>data = Some accuracy_data, metrics = None\<rparr>"
             "[]" "[]" 0 None
             "payload (JArr [JNum 1, JNum 0, JNum 1]) (JArr [JNum 1, JNum 1, JNum 1])"]
  note unknown = C7_protocol_resolution
         [of common_http JNull "grpc_handler \<lparr>data = Some accuracy_data, metrics = None\<rparr>"
             example_env "example_request well_formed_body" "[]" common_http
             "example_model \<lparr>data = Some accuracy_data, metrics = None\<rparr>"
             "[]" "[]" 0 None
             "payload (JArr [JNum 1, JNum 0, JNum 1]) (JArr [JNum 1, JNum 1, JNum 1])"]
  from known unknown c n g j
  show ?thesis by simp
qed

text \<open>
  The claim also says that the failure is fatal at construction time and never reached per
  request. It is the other way round: a server constructed with a protocol the module
  does not know is constructed, starts, and fails on the request.
\<close>

theorem C7_construction_counterexample:
  "deployed (CEServer_init (other_protocol ''grpc'') ''io.bdilab.monitor.metrics''
               ''io.bdilab.monitor'' 8080 (Some []))
            (example_model \<lparr>data = Some accuracy_data, metrics = None\<rparr>)
     = Some (grpc_handler \<lparr>data = Some accuracy_data, metrics = None\<rparr>)
   \<and> outcome (post example_env (grpc_handler \<lparr>data = Some accuracy_data, metrics = None\<rparr>)
        (example_request well_formed_body) []) = Inl (UnknownProtocol (other_protocol ''grpc''))"
proof -
  have "invoke_model example_env (grpc_handler \<lparr>data = Some accuracy_data, metrics = None\<rparr>)
          (example_request well_formed_body)
        = (Inl (UnknownProtocol (other_protocol ''grpc'')), [])"
    by (simp add: invoke_model_def parse_body_def get_request_handler_def and_then_def ok_def
        grpc_handler_def example_handler_def example_env_def example_request_def
        example_json_loads_def example_documents_def)
  then have "outcome (post example_env (grpc_handler \<lparr>data = Some accuracy_data, metrics = None\<rparr>)
        (example_request well_formed_body) []) = Inl (UnknownProtocol (other_protocol ''grpc''))"
    by (simp add: post_Inl)
  moreover have "deployed (CEServer_init (other_protocol ''grpc'') ''io.bdilab.monitor.metrics''
               ''io.bdilab.monitor'' 8080 (Some []))
            (example_model \<lparr>data = Some accuracy_data, metrics = None\<rparr>)
     = Some (grpc_handler \<lparr>data = Some accuracy_data, metrics = None\<rparr>)"
    by (simp add: deployed_def CEServer_init_def start_def register_model_def emit_def
        create_application_def example_model_def grpc_handler_def example_handler_def)
  ultimately show ?thesis by simp
qed

subsection \<open>Registration\<close>




subsection \<open>Relay failure\<close>

text \<open>
  Claim C2. Take a request for which the model returned a response with data, handled
  with a reply URL other than the empty string, so that the relay is attempted. When
  \<^verbatim>\<open>sendCloudEvent\<close> raises, the request ends with that exception, which tornado answers
  with status 500, and the response body is never written. Conversely the body is written
  only when \<^verbatim>\<open>sendCloudEvent\<close> returned.
\<close>

theorem C2_relay_failure_aborts_response:
  assumes "invoke_model env h req = (Inr (ev, response), w)"
      and "data response = Some d"
      and "reply_url h \<noteq> Some []"
  shows "(fst (sendCloudEvent env (build_revent env h ev d) (reply_url h)) = Inl e \<longrightarrow>
            outcome (post env h req reg) = Inl e
            \<and> http_status (outcome (post env h req reg)) = 500
            \<and> \<not> list_ex is_Write (effects (post env h req reg)))
       \<and> (list_ex is_Write (effects (post env h req reg)) \<longrightarrow>
            fst (sendCloudEvent env (build_revent env h ev d) (reply_url h)) = Inr ())"
proof -
  let ?send = "sendCloudEvent env (build_revent env h ev d) (reply_url h)"
  have w: "filter is_Write w = []"
    using invoke_model_Inr_effects [OF assms(1)] by (simp add: list_ex_filter)
  have m: "filter is_Write (fst (metrics_side_effect env h (metrics response) reg)) = []"
    by (simp add: metrics_side_effect_def split: option.splits)
  have s: "filter is_Write (snd ?send) = []"
    by (rule sendCloudEvent_no_Write)
  have failed: "fst ?send = Inl e \<longrightarrow>
            outcome (post env h req reg) = Inl e
            \<and> http_status (outcome (post env h req reg)) = 500
            \<and> \<not> list_ex is_Write (effects (post env h req reg))"
  proof
    assume f: "fst ?send = Inl e"
    then have r: "relay_and_respond env h ev (Some d)
        = (Inl e, uuid1_calls env ev
           @ LogDebug (json_dumps env (Properties env (build_revent env h ev d))) # snd ?send)"
      by (cases ?send) (simp add: relay_and_respond_relayed [OF assms(3)])
    from sendCloudEvent_error_status [OF f] r w m s
    show "outcome (post env h req reg) = Inl e
            \<and> http_status (outcome (post env h req reg)) = 500
            \<and> \<not> list_ex is_Write (effects (post env h req reg))"
      by (simp add: post_Inr [OF assms(1)] assms(2) list_ex_filter uuid1_calls_filter)
  qed
  have written: "list_ex is_Write (effects (post env h req reg)) \<longrightarrow> fst ?send = Inr ()"
  proof
    assume a: "list_ex is_Write (effects (post env h req reg))"
    show "fst ?send = Inr ()"
    proof (cases "fst ?send")
      case (Inl e')
      then have "relay_and_respond env h ev (Some d)
        = (Inl e', uuid1_calls env ev
           @ LogDebug (json_dumps env (Properties env (build_revent env h ev d))) # snd ?send)"
        by (cases ?send) (simp add: relay_and_respond_relayed [OF assms(3)])
      with a w m s show ?thesis
        by (simp add: post_Inr [OF assms(1)] assms(2) list_ex_filter uuid1_calls_filter)
    next
      case (Inr u)
      then show ?thesis by simp
    qed
  qed
  from failed written show ?thesis by blast
qed

theorem C2_relay_failure_witness:
  "fst (invoke_model example_env
         (example_handler (Some ''http://unreachable/'') \<lparr>data = Some accuracy_data, metrics = None\<rparr>)
         (example_request well_formed_body))
     = Inr (inbound_event well_formed_payload, \<lparr>data = Some accuracy_data, metrics = None\<rparr>)
   \<and> reply_url (example_handler (Some ''http://unreachable/'')
        \<lparr>data = Some accuracy_data, metrics = None\<rparr>) \<noteq> Some []
   \<and> fst (sendCloudEvent example_env
         (build_revent example_env
           (example_handler (Some ''http://unreachable/'') \<lparr>data = Some accuracy_data, metrics = None\<rparr>)
           (inbound_event well_formed_payload) accuracy_data)
         (Some ''http://unreachable/''))
     = Inl (RequestException ''ConnectionError: connection refused'')
   \<and> outcome (post example_env
         (example_handler (Some ''http://unreachable/'') \<lparr>data = Some accuracy_data, metrics = None\<rparr>)
         (example_request well_formed_body) [])
     = Inl (RequestException ''ConnectionError: connection refused'')
   \<and> http_status (outcome (post example_env
         (example_handler (Some ''http://unreachable/'') \<lparr>data = Some accuracy_data, metrics = None\<rparr>)
         (example_request well_formed_body) [])) = 500
   \<and> \<not> list_ex is_Write (effects (post example_env
         (example_handler (Some ''http://unreachable/'') \<lparr>data = Some accuracy_data, metrics = None\<rparr>)
         (example_request well_formed_body) []))"
proof -
  let ?r = "\<lparr>data = Some accuracy_data, metrics = None\<rparr> :: (json, json) ModelResponse"
  let ?h = "example_handler (Some ''http://unreachable/'') ?r"
  have i: "fst (invoke_model example_env ?h (example_request well_formed_body))
      = Inr (inbound_event well_formed_payload, ?r)"
    by (rule example_invoke_model_well_formed)
  have d: "data ?r = Some accuracy_data"
    by simp
  have u: "reply_url ?h \<noteq> Some []"
    by (simp add: example_handler_def)
  have s: "fst (sendCloudEvent example_env
         (build_revent example_env ?h (inbound_event well_formed_payload) accuracy_data)
         (reply_url ?h))
     = Inl (RequestException ''ConnectionError: connection refused'')"
    by (simp add: example_send example_requests_post_def example_handler_def)
  from C2_relay_failure_aborts_response [OF example_invoked [OF i] d u,
         of "RequestException ''ConnectionError: connection refused''" "[]"] i u s
  show ?thesis
    by (simp add: example_handler_def)
qed

subsection \<open>Invalid metrics\<close>

text \<open>
  Claim C3. Take a request for which the model returned a response whose metrics batch the
  validator rejects. The handler logs the batch as an error, \<^verbatim>\<open>update\<close> is not called,
  the registry is what it was, and the outcome and the remaining effects are exactly those
  of the relay and respond steps.
\<close>

theorem C3_invalid_metrics_are_logged_and_dropped:
  assumes "invoke_model env h req = (Inr (ev, response), w)"
      and "metrics response = Some batch"
      and "\<not> validate_metrics env batch"
  shows "effects (post env h req reg) =
           w @ [LogError (''Metrics returned are invalid: '' @ str_metrics env batch)]
             @ snd (relay_and_respond env h ev (data response))
       \<and> \<not> list_ex is_MetricsUpdate (effects (post env h req reg))
       \<and> registry (post env h req reg) = reg
       \<and> outcome (post env h req reg) = fst (relay_and_respond env h ev (data response))"
proof -
  have m: "metrics_side_effect env h (metrics response) reg
      = ([LogError (''Metrics returned are invalid: '' @ str_metrics env batch)], reg)"
    using assms(2,3) by (simp add: metrics_side_effect_def)
  have w: "filter is_MetricsUpdate w = []"
    using invoke_model_Inr_effects [OF assms(1)] by (simp add: list_ex_filter)
  have r: "filter is_MetricsUpdate (snd (relay_and_respond env h ev (data response))) = []"
    by (rule relay_and_respond_no_MetricsUpdate)
  from m w r show ?thesis
    by (simp add: post_Inr [OF assms(1)] list_ex_filter)
qed

theorem C3_invalid_metrics_witness:
  "fst (invoke_model example_env
         (example_handler (Some []) \<lparr>data = Some accuracy_data, metrics = Some invalid_batch\<rparr>)
         (example_request well_formed_body))
     = Inr (inbound_event well_formed_payload,
            \<lparr>data = Some accuracy_data, metrics = Some invalid_batch\<rparr>)
   \<and> \<not> validate_metrics example_env invalid_batch
   \<and> registry (post example_env
         (example_handler (Some []) \<lparr>data = Some accuracy_data, metrics = Some invalid_batch\<rparr>)
         (example_request well_formed_body) [(valid_batch, ''earlier'')])
     = [(valid_batch, ''earlier'')]
   \<and> \<not> list_ex is_MetricsUpdate (effects (post example_env
         (example_handler (Some []) \<lparr>data = Some accuracy_data, metrics = Some invalid_batch\<rparr>)
         (example_request well_formed_body) [(valid_batch, ''earlier'')]))
   \<and> outcome (post example_env
         (example_handler (Some []) \<lparr>data = Some accuracy_data, metrics = Some invalid_batch\<rparr>)
         (example_request well_formed_body) [(valid_batch, ''earlier'')]) = Inr ()"
proof -
  let ?r = "\<lparr>data = Some accuracy_data, metrics = Some invalid_batch\<rparr> :: (json, json) ModelResponse"
  let ?h = "example_handler (Some []) ?r"
  have i: "fst (invoke_model example_env ?h (example_request well_formed_body))
      = Inr (inbound_event well_formed_payload, ?r)"
    by (rule example_invoke_model_well_formed)
  have b: "metrics ?r = Some invalid_batch"
    by simp
  have v: "\<not> validate_metrics example_env invalid_batch"
    by (simp add: example_env_def example_validate_metrics_def invalid_batch_def)
  have r: "fst (relay_and_respond example_env ?h (inbound_event well_formed_payload)
                 (Some accuracy_data)) = Inr ()"
    by (simp add: relay_and_respond_def example_handler_def and_then_def ok_def emit_def)
  note dropped = C3_invalid_metrics_are_logged_and_dropped [OF example_invoked [OF i] b v,
         of "[(valid_batch, ''earlier'')]"]
  have no_update: "\<not> list_ex is_MetricsUpdate (effects (post example_env ?h
         (example_request well_formed_body) [(valid_batch, ''earlier'')]))"
    using dropped by blast
  have unchanged: "registry (post example_env ?h
         (example_request well_formed_body) [(valid_batch, ''earlier'')])
       = [(valid_batch, ''earlier'')]"
    using dropped by blast
  have proceeds: "outcome (post example_env ?h
         (example_request well_formed_body) [(valid_batch, ''earlier'')])
       = fst (relay_and_respond example_env ?h (inbound_event well_formed_payload) (data ?r))"
    using dropped by blast
  from no_update unchanged proceeds i v r
  show ?thesis
    by simp
qed

subsection \<open>A response without data\<close>

text \<open>
  Claim C10. Take a request for which the model returned a response without data. Whatever
  the reply URL is, the handler returns, nothing is posted and no body is written: after
  the call of the model the effects are those of the metrics step alone, and so is the
  registry.
\<close>

theorem C10_absent_data_no_relay_no_body:
  assumes "invoke_model env h req = (Inr (ev, response), w)"
      and "data response = None"
  shows "outcome (post env h req reg) = Inr ()
       \<and> \<not> list_ex is_HttpPost (effects (post env h req reg))
       \<and> \<not> list_ex is_Write (effects (post env h req reg))
       \<and> effects (post env h req reg) = w @ fst (metrics_side_effect env h (metrics response) reg)
       \<and> registry (post env h req reg) = snd (metrics_side_effect env h (metrics response) reg)"
proof -
  have r: "relay_and_respond env h ev (data response) = (Inr (), [])"
    using assms(2) by (simp add: relay_and_respond_def ok_def)
  have w: "filter is_HttpPost w = [] \<and> filter is_Write w = []"
    using invoke_model_Inr_effects [OF assms(1)] by (simp add: list_ex_filter)
  have m: "filter is_HttpPost (fst (metrics_side_effect env h (metrics response) reg)) = []
         \<and> filter is_Write (fst (metrics_side_effect env h (metrics response) reg)) = []"
    by (simp add: metrics_side_effect_def split: option.splits)
  from r w m show ?thesis
    by (simp add: post_Inr [OF assms(1)] list_ex_filter)
qed

theorem C10_absent_data_witness:
  "fst (invoke_model example_env
         (example_handler (Some ''http://sink/ok'') \<lparr>data = None, metrics = Some valid_batch\<rparr>)
         (example_request well_formed_body))
     = Inr (inbound_event well_formed_payload, \<lparr>data = None, metrics = Some valid_batch\<rparr>)
   \<and> outcome (post example_env
         (example_handler (Some ''http://sink/ok'') \<lparr>data = None, metrics = Some valid_batch\<rparr>)
         (example_request well_formed_body) []) = Inr ()
   \<and> \<not> list_ex is_HttpPost (effects (post example_env
         (example_handler (Some ''http://sink/ok'') \<lparr>data = None, metrics = Some valid_batch\<rparr>)
         (example_request well_formed_body) []))
   \<and> \<not> list_ex is_Write (effects (post example_env
         (example_handler (Some ''http://sink/ok'') \<lparr>data = None, metrics = Some valid_batch\<rparr>)
         (example_request well_formed_body) []))
   \<and> registry (post example_env
         (example_handler (Some ''http://sink/ok'') \<lparr>data = None, metrics = Some valid_batch\<rparr>)
         (example_request well_formed_body) [])
     = [(valid_batch, ''io.bdilab.monitor.metrics'')]"
proof -
  let ?r = "\<lparr>data = None, metrics = Some valid_batch\<rparr> :: (json, json) ModelResponse"
  let ?h = "example_handler (Some ''http://sink/ok'') ?r"
  have i: "fst (invoke_model example_env ?h (example_request well_formed_body))
      = Inr (inbound_event well_formed_payload, ?r)"
    by (rule example_invoke_model_well_formed)
  have d: "data ?r = None"
    by simp
  have m: "snd (metrics_side_effect example_env ?h (Some valid_batch) [])
      = [(valid_batch, ''io.bdilab.monitor.metrics'')]"
    by (simp add: metrics_side_effect_def example_env_def example_validate_metrics_def
        valid_batch_def example_handler_def)
  note absent = C10_absent_data_no_relay_no_body [OF example_invoked [OF i] d, of "[]"]
  have returns: "outcome (post example_env ?h (example_request well_formed_body) []) = Inr ()"
    using absent by blast
  have no_post: "\<not> list_ex is_HttpPost
      (effects (post example_env ?h (example_request well_formed_body) []))"
    using absent by blast
  have no_body: "\<not> list_ex is_Write
      (effects (post example_env ?h (example_request well_formed_body) []))"
    using absent by blast
  have reg: "registry (post example_env ?h (example_request well_formed_body) [])
      = snd (metrics_side_effect example_env ?h (metrics ?r) [])"
    using absent by blast
  from returns no_post no_body reg i m
  show ?thesis
    by simp
qed


subsection \<open>The reply event\<close>

lemma post_relayed_posts:
  assumes "invoke_model env h req = (Inr (ev, response), w)"
      and "data response = Some d"
      and "reply_url h \<noteq> Some []"
  shows "filter is_HttpPost (effects (post env h req reg)) =
           [HttpPost (reply_url h) (fst (ToRequest env (build_revent env h ev d)))
              (snd (ToRequest env (build_revent env h ev d)))]"
proof -
  let ?send = "sendCloudEvent env (build_revent env h ev d) (reply_url h)"
  have w: "filter is_HttpPost w = []"
    using invoke_model_Inr_effects [OF assms(1)] by (simp add: list_ex_filter)
  have m: "filter is_HttpPost (fst (metrics_side_effect env h (metrics response) reg)) = []"
    by (simp add: metrics_side_effect_def split: option.splits)
  have r: "filter is_HttpPost (snd (relay_and_respond env h ev (Some d)))
      = filter is_HttpPost (snd ?send)"
    by (cases ?send)
       (simp add: relay_and_respond_relayed [OF assms(3)] uuid1_calls_filter split: sum.splits)
  from w m r show ?thesis
    by (simp add: post_Inr [OF assms(1)] assms(2) sendCloudEvent_posts_once)
qed




subsection \<open>Arrays of different lengths\<close>

lemma invoke_model_to_conversion:
  assumes "json_loads env (body req) = Inr b"
      and "protocol h = common_http"
      and "validate env (CommonRequestHandler b) = Inr ()"
      and "extract_request env (CommonRequestHandler b) = Inr (y_pred, y_true, tt)"
      and "FromRequest env (headers req) (body req) = Inr ev"
  shows "invoke_model env h req =
     and_then (emit (LogDebug (json_dumps env (Properties env ev)))) (\<lambda>u.
     and_then (np_inputs env y_true y_pred) (\<lambda>inputs.
     and_then (call_model h inputs (request_headers req tt)) (\<lambda>response.
       ok (ev, response))))"
  using assms
  by (simp add: invoke_model_def parse_body_def get_request_handler_def call_def and_then_def
      ok_def)

text \<open>
  Claim C9, as the code has it. Take a request that reaches the conversion: the body
  parses, the protocol is \<^verbatim>\<open>common_http\<close>, validation and extraction return, the
  envelope is read. \<^verbatim>\<open>y_true\<close> and \<^verbatim>\<open>y_pred\<close> are converted one after the other and
  never compared. When a conversion raises, the request ends with the exception of line
  216, a server error, the model is not invoked and the registry is what it was. When
  both return, the registered model is invoked with the two arrays, whatever their
  lengths.
\<close>

theorem C9_conversion_is_per_array:
  assumes "json_loads env (body req) = Inr b"
      and "protocol h = common_http"
      and "validate env (CommonRequestHandler b) = Inr ()"
      and "extract_request env (CommonRequestHandler b) = Inr (y_pred, y_true, tt)"
      and "FromRequest env (headers req) (body req) = Inr ev"
  shows "(np_array env y_true = Inl e \<longrightarrow>
            outcome (post env h req reg) = Inl (NumPyArrayFailed e [])
            \<and> http_status (outcome (post env h req reg)) = 500
            \<and> \<not> list_ex is_ProcessEvent (effects (post env h req reg))
            \<and> registry (post env h req reg) = reg)
       \<and> (np_array env y_true = Inr a_true \<and> np_array env y_pred = Inl e \<longrightarrow>
            outcome (post env h req reg) = Inl (NumPyArrayFailed e [(''y_true'', a_true)])
            \<and> http_status (outcome (post env h req reg)) = 500
            \<and> \<not> list_ex is_ProcessEvent (effects (post env h req reg))
            \<and> registry (post env h req reg) = reg)
       \<and> (np_array env y_true = Inr a_true \<and> np_array env y_pred = Inr a_pred
            \<and> model h = Some mdl \<longrightarrow>
            ProcessEvent [(''y_true'', a_true), (''y_pred'', a_pred)] (request_headers req tt)
              \<in> set (effects (post env h req reg)))"
proof -
  note reach = invoke_model_to_conversion [OF assms]
  have first: "np_array env y_true = Inl e \<longrightarrow>
            outcome (post env h req reg) = Inl (NumPyArrayFailed e [])
            \<and> http_status (outcome (post env h req reg)) = 500
            \<and> \<not> list_ex is_ProcessEvent (effects (post env h req reg))
            \<and> registry (post env h req reg) = reg"
  proof
    assume "np_array env y_true = Inl e"
    then have "invoke_model env h req
        = (Inl (NumPyArrayFailed e []), [LogDebug (json_dumps env (Properties env ev))])"
      by (simp add: reach np_inputs_def and_then_def emit_def raise_def)
    then show "outcome (post env h req reg) = Inl (NumPyArrayFailed e [])
            \<and> http_status (outcome (post env h req reg)) = 500
            \<and> \<not> list_ex is_ProcessEvent (effects (post env h req reg))
            \<and> registry (post env h req reg) = reg"
      by (simp add: post_Inl)
  qed
  have second: "np_array env y_true = Inr a_true \<and> np_array env y_pred = Inl e \<longrightarrow>
            outcome (post env h req reg) = Inl (NumPyArrayFailed e [(''y_true'', a_true)])
            \<and> http_status (outcome (post env h req reg)) = 500
            \<and> \<not> list_ex is_ProcessEvent (effects (post env h req reg))
            \<and> registry (post env h req reg) = reg"
  proof
    assume "np_array env y_true = Inr a_true \<and> np_array env y_pred = Inl e"
    then have "invoke_model env h req
        = (Inl (NumPyArrayFailed e [(''y_true'', a_true)]),
           [LogDebug (json_dumps env (Properties env ev))])"
      by (simp add: reach np_inputs_def and_then_def emit_def raise_def)
    then show "outcome (post env h req reg) = Inl (NumPyArrayFailed e [(''y_true'', a_true)])
            \<and> http_status (outcome (post env h req reg)) = 500
            \<and> \<not> list_ex is_ProcessEvent (effects (post env h req reg))
            \<and> registry (post env h req reg) = reg"
      by (simp add: post_Inl)
  qed
  have both: "np_array env y_true = Inr a_true \<and> np_array env y_pred = Inr a_pred
            \<and> model h = Some mdl \<longrightarrow>
            ProcessEvent [(''y_true'', a_true), (''y_pred'', a_pred)] (request_headers req tt)
              \<in> set (effects (post env h req reg))"
  proof
    assume a: "np_array env y_true = Inr a_true \<and> np_array env y_pred = Inr a_pred
            \<and> model h = Some mdl"
    let ?call = "ProcessEvent [(''y_true'', a_true), (''y_pred'', a_pred)] (request_headers req tt)"
    from a have called: "?call \<in> set (snd (invoke_model env h req))"
      by (simp add: reach np_inputs_def call_model_def call_def and_then_def emit_def raise_def
          ok_def split: sum.splits option.splits)
    show "?call \<in> set (effects (post env h req reg))"
    proof (cases "invoke_model env h req")
      case (Pair r w)
      show ?thesis
      proof (cases r)
        case (Inl e')
        with Pair called show ?thesis
          by (simp add: post_Inl)
      next
        case (Inr er)
        obtain ev' response where "er = (ev', response)" by (cases er)
        with Pair Inr called show ?thesis
          by (simp add: post_Inr)
      qed
    qed
  qed
  from first second both show ?thesis by blast
qed

theorem C9_conversion_witness:
  "json_loads example_env (body (example_request ragged_body)) = Inr ragged_payload
   \<and> protocol (example_handler None \<lparr>data = Some accuracy_data, metrics = Some valid_batch\<rparr>)
       = common_http
   \<and> extract_request example_env (CommonRequestHandler ragged_payload)
       = Inr (JArr [JNum 1, JNum 0, JNum 1], JArr [JArr [JNum 1, JNum 1], JArr [JNum 1]],
              ''classification'')
   \<and> np_array example_env (JArr [JArr [JNum 1, JNum 1], JArr [JNum 1]])
       = Inl (OtherException ''ValueError: inhomogeneous shape'')
   \<and> outcome (post example_env
         (example_handler None \<lparr>data = Some accuracy_data, metrics = Some valid_batch\<rparr>)
         (example_request ragged_body) [])
       = Inl (NumPyArrayFailed (OtherException ''ValueError: inhomogeneous shape'') [])
   \<and> \<not> list_ex is_ProcessEvent (effects (post example_env
         (example_handler None \<lparr>data = Some accuracy_data, metrics = Some valid_batch\<rparr>)
         (example_request ragged_body) []))
   \<and> registry (post example_env
         (example_handler None \<lparr>data = Some accuracy_data, metrics = Some valid_batch\<rparr>)
         (example_request ragged_body) []) = []"
proof -
  let ?r = "\<lparr>data = Some accuracy_data, metrics = Some valid_batch\<rparr> :: (json, json) ModelResponse"
  let ?h = "example_handler None ?r"
  have j: "json_loads example_env (body (example_request ragged_body)) = Inr ragged_payload"
    by (rule example_json_loads_ragged)
  have p: "protocol ?h = common_http"
    by (simp add: example_handler_def)
  have v: "validate example_env (CommonRequestHandler ragged_payload) = Inr ()"
    by (rule example_validate)
  have x: "extract_request example_env (CommonRequestHandler ragged_payload)
       = Inr (JArr [JNum 1, JNum 0, JNum 1], JArr [JArr [JNum 1, JNum 1], JArr [JNum 1]],
              ''classification'')"
    by (simp add: ragged_payload_def example_extract_request)
  have n: "np_array example_env (JArr [JArr [JNum 1, JNum 1], JArr [JNum 1]])
       = Inl (OtherException ''ValueError: inhomogeneous shape'')"
    by (rule example_np_array_ragged)
  note conv = C9_conversion_is_per_array [OF j p v x example_FromRequest [OF j],
      of "OtherException ''ValueError: inhomogeneous shape''" "[]"
         "NDArray [] JNull" "NDArray [] JNull" "example_model ?r"]
  have failed: "outcome (post example_env ?h (example_request ragged_body) [])
       = Inl (NumPyArrayFailed (OtherException ''ValueError: inhomogeneous shape'') [])
     \<and> \<not> list_ex is_ProcessEvent (effects (post example_env ?h (example_request ragged_body) []))
     \<and> registry (post example_env ?h (example_request ragged_body) []) = []"
    using conv n by blast
  from failed j p x n
  show ?thesis
    by simp
qed

text \<open>
  The claim as the spec words it does not hold: with \<^verbatim>\<open>predicted\<close> of length 3 and
  \<^verbatim>\<open>actual\<close> of length 2 both conversions return, the model is invoked with an array of
  shape [2] and one of shape [3], the request is answered with the model's data, and the
  registry takes the batch the model reported.
\<close>

theorem C9_mismatched_lengths_counterexample:
  "extract_request example_env (CommonRequestHandler mismatched_payload)
     = Inr (JArr [JNum 1, JNum 0, JNum 1], JArr [JNum 1, JNum 1], ''classification'')
   \<and> np_inputs example_env (JArr [JNum 1, JNum 1]) (JArr [JNum 1, JNum 0, JNum 1])
     = (Inr [(''y_true'', NDArray [2] (JArr [JNum 1, JNum 1])),
             (''y_pred'', NDArray [3] (JArr [JNum 1, JNum 0, JNum 1]))], [])
   \<and> list_ex is_ProcessEvent (effects (post example_env
        (example_handler (Some []) \<lparr>data = Some accuracy_data, metrics = Some valid_batch\<rparr>)
        (example_request mismatched_body) []))
   \<and> http_status (outcome (post example_env
        (example_handler (Some []) \<lparr>data = Some accuracy_data, metrics = Some valid_batch\<rparr>)
        (example_request mismatched_body) [])) = 200
   \<and> registry (post example_env
        (example_handler (Some []) \<lparr>data = Some accuracy_data, metrics = Some valid_batch\<rparr>)
        (example_request mismatched_body) []) = [(valid_batch, ''io.bdilab.monitor.metrics'')]"
proof -
  let ?r = "\<lparr>data = Some accuracy_data, metrics = Some valid_batch\<rparr> :: (json, json) ModelResponse"
  let ?h = "example_handler (Some []) ?r"
  have x: "extract_request example_env (CommonRequestHandler mismatched_payload)
     = Inr (JArr [JNum 1, JNum 0, JNum 1], JArr [JNum 1, JNum 1], ''classification'')"
    by (simp add: mismatched_payload_def example_extract_request)
  have c: "np_inputs example_env (JArr [JNum 1, JNum 1]) (JArr [JNum 1, JNum 0, JNum 1])
     = (Inr [(''y_true'', NDArray [2] (JArr [JNum 1, JNum 1])),
             (''y_pred'', NDArray [3] (JArr [JNum 1, JNum 0, JNum 1]))], [])"
    by (simp add: np_inputs_def example_np_array_flat2 example_np_array_flat3 ok_def)
  have i: "fst (invoke_model example_env ?h (example_request mismatched_body))
      = Inr (inbound_event mismatched_payload, ?r)"
    by (rule example_invoke_model_mismatched)
  from invoke_model_Inr [OF example_invoked [OF i]]
  have called: "list_ex is_ProcessEvent
      (snd (invoke_model example_env ?h (example_request mismatched_body)))"
    by auto
  have m: "metrics_side_effect example_env ?h (Some valid_batch) []
      = ([MetricsUpdate valid_batch ''io.bdilab.monitor.metrics''],
         [(valid_batch, ''io.bdilab.monitor.metrics'')])"
    by (simp add: metrics_side_effect_def example_env_def example_validate_metrics_def
        valid_batch_def example_handler_def)
  have r: "fst (relay_and_respond example_env ?h (inbound_event mismatched_payload)
                 (Some accuracy_data)) = Inr ()"
    by (simp add: relay_and_respond_def example_handler_def and_then_def ok_def emit_def)
  from x c called m r show ?thesis
    by (simp add: post_Inr [OF example_invoked [OF i]])
qed

subsection \<open>The reply URL left unset\<close>

text \<open>
  Claim C1 at the input where it fails. A server constructed with the defaults of the
  constructor has the reply URL \<^verbatim>\<open>None\<close>, and so has the handler it serves with. The
  handler compares the URL with the empty string only: for a response with data it
  builds the reply event and calls \<^verbatim>\<open>requests.post\<close> with the URL \<^verbatim>\<open>None\<close>. In the
  example the post fails for want of a URL, so the request ends with a server error and
  the model's data is not written; with the empty string as URL the same request posts
  nothing and is answered.
\<close>

theorem C1_unset_reply_url_is_relayed:
  "deployed (CEServer_init_default common_http ''io.bdilab.monitor.metrics'' ''io.bdilab.monitor'')
            (example_model \<lparr>data = Some accuracy_data, metrics = None\<rparr>)
     = Some (example_handler None \<lparr>data = Some accuracy_data, metrics = None\<rparr>)
   \<and> filter is_HttpPost (effects (post example_env
        (example_handler None \<lparr>data = Some accuracy_data, metrics = None\<rparr>)
        (example_request well_formed_body) []))
     = [HttpPost None
          (fst (ToRequest example_env (build_revent example_env
             (example_handler None \<lparr>data = Some accuracy_data, metrics = None\<rparr>)
             (inbound_event well_formed_payload) accuracy_data)))
          (snd (ToRequest example_env (build_revent example_env
             (example_handler None \<lparr>data = Some accuracy_data, metrics = None\<rparr>)
             (inbound_event well_formed_payload) accuracy_data)))]
   \<and> http_status (outcome (post example_env
        (example_handler None \<lparr>data = Some accuracy_data, metrics = None\<rparr>)
        (example_request well_formed_body) [])) = 500
   \<and> filter is_Write (effects (post example_env
        (example_handler None \<lparr>data = Some accuracy_data, metrics = None\<rparr>)
        (example_request well_formed_body) [])) = []
   \<and> filter is_HttpPost (effects (post example_env
        (example_handler (Some []) \<lparr>data = Some accuracy_data, metrics = None\<rparr>)
        (example_request well_formed_body) [])) = []
   \<and> http_status (outcome (post example_env
        (example_handler (Some []) \<lparr>data = Some accuracy_data, metrics = None\<rparr>)
        (example_request well_formed_body) [])) = 200"
proof -
  let ?r = "\<lparr>data = Some accuracy_data, metrics = None\<rparr> :: (json, json) ModelResponse"
  let ?unset = "example_handler None ?r"
  let ?empty = "example_handler (Some []) ?r"
  let ?reply = "build_revent example_env ?unset (inbound_event well_formed_payload) accuracy_data"
  have served: "deployed
      (CEServer_init_default common_http ''io.bdilab.monitor.metrics'' ''io.bdilab.monitor'')
      (example_model ?r) = Some ?unset"
    by (simp add: deployed_def CEServer_init_default_def CEServer_init_def start_def
        register_model_def emit_def create_application_def example_model_def example_handler_def)
  have i: "fst (invoke_model example_env ?unset (example_request well_formed_body))
      = Inr (inbound_event well_formed_payload, ?r)"
    by (rule example_invoke_model_well_formed)
  have i': "fst (invoke_model example_env ?empty (example_request well_formed_body))
      = Inr (inbound_event well_formed_payload, ?r)"
    by (rule example_invoke_model_well_formed)
  have u: "reply_url ?unset \<noteq> Some []"
    by (simp add: example_handler_def)
  have posted: "filter is_HttpPost
      (effects (post example_env ?unset (example_request well_formed_body) []))
      = [HttpPost None (fst (ToRequest example_env ?reply)) (snd (ToRequest example_env ?reply))]"
    using post_relayed_posts [OF example_invoked [OF i] _ u, of accuracy_data "[]"]
    by (simp add: example_handler_def)
  have f: "fst (sendCloudEvent example_env ?reply (reply_url ?unset))
      = Inl (RequestException ''MissingSchema: Invalid URL None: No scheme supplied'')"
    by (simp add: example_send example_requests_post_def example_handler_def)
  obtain sw where s: "sendCloudEvent example_env ?reply (reply_url ?unset)
      = (Inl (RequestException ''MissingSchema: Invalid URL None: No scheme supplied''), sw)"
    using f by (cases "sendCloudEvent example_env ?reply (reply_url ?unset)") auto
  have sw: "filter is_Write sw = []"
    using sendCloudEvent_no_Write [of example_env ?reply "reply_url ?unset"] s by simp
  have w: "filter is_Write (snd (invoke_model example_env ?unset (example_request well_formed_body)))
      = []"
    using invoke_model_Inr_effects [OF example_invoked [OF i]] by (simp add: list_ex_filter)
  have failed: "http_status (outcome
        (post example_env ?unset (example_request well_formed_body) [])) = 500
      \<and> filter is_Write (effects
        (post example_env ?unset (example_request well_formed_body) [])) = []"
    using s sw w
    by (simp add: post_Inr [OF example_invoked [OF i]] relay_and_respond_relayed [OF u]
        metrics_side_effect_def uuid1_calls_filter)
  have w': "filter is_HttpPost
      (snd (invoke_model example_env ?empty (example_request well_formed_body))) = []"
    using invoke_model_Inr_effects [OF example_invoked [OF i']] by (simp add: list_ex_filter)
  have r': "relay_and_respond example_env ?empty (inbound_event well_formed_payload)
        (Some accuracy_data) = (Inr (), [Write (json_dumps example_env accuracy_data)])"
    by (simp add: relay_and_respond_def example_handler_def and_then_def ok_def emit_def)
  have answered: "filter is_HttpPost (effects
        (post example_env ?empty (example_request well_formed_body) [])) = []
      \<and> http_status (outcome
        (post example_env ?empty (example_request well_formed_body) [])) = 200"
    using w' r'
    by (simp add: post_Inr [OF example_invoked [OF i']] metrics_side_effect_def)
  from served posted failed answered show ?thesis
    by blast
qed


end
